theory Spec2Isabelle
  imports Main "HOL-Library.Word"
begin

section \<open>Values of the Go runtime\<close>

text \<open>
  \<^verbatim>\<open>time.Duration\<close> is an \<^verbatim>\<open>int64\<close> count of nanoseconds: \<open>+\<close> and \<open>*\<close> wrap
  around, \<open>sint\<close> reads the signed value.
\<close>

type_synonym Duration = "64 word"

definition Nanosecond :: Duration where
  "Nanosecond = 1"

definition Microsecond :: Duration where
  "Microsecond = 1000 * Nanosecond"

definition Millisecond :: Duration where
  "Millisecond = 1000 * Microsecond"

definition Second :: Duration where
  "Second = 1000 * Millisecond"

definition Minute :: Duration where
  "Minute = 60 * Second"

definition Hour :: Duration where
  "Hour = 60 * Minute"

text \<open>
  A call either returns its results or panics (a run-time error that unwinds the
  goroutine; nothing in this program recovers from one).
\<close>

datatype 'a outcome = Returns 'a | Panics string

text \<open>
  The functions of the standard library that the program calls and whose source is not
  part of the repository. \<open>'t\<close> is \<^verbatim>\<open>time.Time\<close>. A Go function returning
  \<^verbatim>\<open>(v, error)\<close> is a function into \<open>v \<times> string option\<close>: the value and, when the
  error is not nil, its message.
\<close>

record 't stdlib =
  Quote :: "string \<Rightarrow> string"
    \<comment> \<open>the verb \<^verbatim>\<open>%q\<close> of \<^verbatim>\<open>fmt\<close> on a string (\<^verbatim>\<open>strconv.Quote\<close>)\<close>
  ToLower :: "string \<Rightarrow> string"
    \<comment> \<open>\<^verbatim>\<open>strings.ToLower\<close>\<close>
  ParseDuration :: "string \<Rightarrow> Duration \<times> string option"
    \<comment> \<open>\<^verbatim>\<open>time.ParseDuration\<close>\<close>
  ParseRFC3339 :: "string \<Rightarrow> 't \<times> string option"
    \<comment> \<open>\<^verbatim>\<open>time.Parse(time.RFC3339, _)\<close>\<close>
  FormatRFC3339 :: "'t \<Rightarrow> string"
    \<comment> \<open>\<^verbatim>\<open>t.Format(time.RFC3339)\<close>\<close>
  IsZero :: "'t \<Rightarrow> bool"
    \<comment> \<open>\<^verbatim>\<open>t.IsZero()\<close>\<close>
  Add :: "'t \<Rightarrow> Duration \<Rightarrow> 't"
    \<comment> \<open>\<^verbatim>\<open>t.Add(d)\<close>\<close>
  UTC :: "'t \<Rightarrow> 't"
    \<comment> \<open>\<^verbatim>\<open>t.UTC()\<close>\<close>
  zeroTime :: "'t"
    \<comment> \<open>the zero value \<^verbatim>\<open>time.Time{}\<close> of a declared, unassigned variable\<close>

section \<open>cmd/root.go: parseFreshness\<close>

definition isDigit :: "char \<Rightarrow> bool" where
  "isDigit c \<longleftrightarrow> c \<in> set ''0123456789''"

text \<open>
  \<^verbatim>\<open>regexp.MustCompile(`^(?:(\d+)d)?(.*)$`).FindStringSubmatch(s)\<close>. Without the flag
  \<^verbatim>\<open>s\<close> the dot matches every character but the line feed, and without the flag
  \<^verbatim>\<open>m\<close> the dollar matches at the end of the text only: a text with a line feed has no
  match and the result is nil (the empty list). Otherwise the result is the whole text,
  group 1 and group 2. The optional group is greedy and \<^verbatim>\<open>\d\<close> is an ASCII digit:
  group 1 is the longest run of leading digits when that run is not empty and a
  \<^verbatim>\<open>d\<close> follows it, with group 2 the text after that \<^verbatim>\<open>d\<close>; in every other case
  group 1 is empty and group 2 is the whole text.
\<close>

definition FindStringSubmatch :: "string \<Rightarrow> string list" where
  "FindStringSubmatch s =
     (if CHR 0x0A \<in> set s then []
      else (case dropWhile isDigit s of
              [] \<Rightarrow> [s, [], s]
            | c # rest \<Rightarrow>
                if takeWhile isDigit s \<noteq> [] \<and> c = CHR ''d''
                then [s, takeWhile isDigit s, rest]
                else [s, [], s]))"

definition digitValue :: "char \<Rightarrow> int" where
  "digitValue c = of_char c - 48"

definition decimal :: "string \<Rightarrow> int" where
  "decimal ds = foldl (\<lambda>n c. 10 * n + digitValue c) 0 ds"

definition maxInt :: int where
  "maxInt = 2 ^ 63 - 1"

definition minInt :: int where
  "minInt = - (2 ^ 63)"

text \<open>
  \<^verbatim>\<open>strconv.Atoi\<close>, with \<^verbatim>\<open>int\<close> of 64 bits: an optional sign and decimal digits;
  anything else is a syntax error, and a value that does not fit is a range error
  returned with the nearest bound.
\<close>

definition Atoi :: "string \<Rightarrow> int \<times> string option" where
  "Atoi s =
     (let neg = (s \<noteq> [] \<and> hd s = CHR ''-'');
          ds = (if s \<noteq> [] \<and> (hd s = CHR ''-'' \<or> hd s = CHR ''+'') then tl s else s)
      in if ds = [] \<or> \<not> list_all isDigit ds
         then (0, Some (''strconv.Atoi: parsing: invalid syntax''))
         else (let v = (if neg then - decimal ds else decimal ds)
               in if v > maxInt then (maxInt, Some ''strconv.Atoi: parsing: value out of range'')
                  else if v < minInt then (minInt, Some ''strconv.Atoi: parsing: value out of range'')
                  else (v, None)))"

definition invalidFreshness :: "'t stdlib \<Rightarrow> string \<Rightarrow> string" where
  "invalidFreshness lib expression = ''invalid freshness '' @ Quote lib expression"

text \<open>
  \<^verbatim>\<open>match[1]\<close> and \<^verbatim>\<open>match[2]\<close> index the result of the match without a check: on
  a nil result the first of them panics.
\<close>

definition parseFreshness :: "'t stdlib \<Rightarrow> string \<Rightarrow> (Duration \<times> string option) outcome" where
  "parseFreshness lib expression =
     (if expression = '''' then Returns (0, Some (invalidFreshness lib expression))
      else (case FindStringSubmatch expression of
              [whole, m1, m2] \<Rightarrow>
                if m1 \<noteq> '''' \<and> snd (Atoi m1) \<noteq> None
                then Returns (0, Some (invalidFreshness lib expression))
                else (let total = (if m1 \<noteq> ''''
                                   then 0 + word_of_int (fst (Atoi m1)) * 24 * Hour
                                   else 0)
                      in if m2 \<noteq> ''''
                         then (case ParseDuration lib m2 of
                                 (other, Some err) \<Rightarrow>
                                   Returns (0, Some (invalidFreshness lib expression))
                               | (other, None) \<Rightarrow> Returns (total + other, None))
                         else Returns (total, None))
            | _ \<Rightarrow> Panics ''index out of range [1] with length 0''))"

section \<open>cmd/root.go: determineTimeWindow and buildFilter\<close>

text \<open>The three time flags of the command, as \<^verbatim>\<open>cmd.Flag(name).Value.String()\<close> reads them.\<close>

record flags =
  freshness :: string
  fromFlag :: string
  toFlag :: string

text \<open>
  \<open>now\<close> is what \<^verbatim>\<open>time.Now()\<close> returns. The results \<^verbatim>\<open>from\<close> and \<^verbatim>\<open>to\<close> are
  named results: they hold the zero time until assigned, and every \<^verbatim>\<open>return\<close> gives
  back all three of \<^verbatim>\<open>from, to, err\<close>.
\<close>

definition determineTimeWindow ::
  "'t stdlib \<Rightarrow> 't \<Rightarrow> flags \<Rightarrow> ('t \<times> 't \<times> string option) outcome" where
  "determineTimeWindow lib now cmd =
     (if freshness cmd \<noteq> '''' then
        (if fromFlag cmd \<noteq> '''' \<or> toFlag cmd \<noteq> ''''
         then Returns (zeroTime lib, zeroTime lib,
                 Some ''--freshness cannot be used together with --from or --to'')
         else (case parseFreshness lib (freshness cmd) of
                 Panics p \<Rightarrow> Panics p
               | Returns (dur, Some err) \<Rightarrow> Returns (zeroTime lib, zeroTime lib, Some err)
               | Returns (dur, None) \<Rightarrow> Returns (Add lib now (- dur), now, None)))
      else if fromFlag cmd \<noteq> '''' \<and> toFlag cmd \<noteq> '''' then
        (case ParseRFC3339 lib (fromFlag cmd) of
           (t1, Some err) \<Rightarrow> Returns (t1, zeroTime lib, Some (''invalid --from: '' @ err))
         | (t1, None) \<Rightarrow>
             (case ParseRFC3339 lib (toFlag cmd) of
                (t2, Some err) \<Rightarrow> Returns (t1, t2, Some (''invalid --to: '' @ err))
              | (t2, None) \<Rightarrow> Returns (t1, t2, None)))
      else if fromFlag cmd = '''' \<and> toFlag cmd = '''' then
        Returns (zeroTime lib, zeroTime lib, None)
      else Returns (zeroTime lib, zeroTime lib,
              Some ''either specify both --from and --to, or neither''))"

text \<open>
  The time filter is \<^verbatim>\<open>fmt.Sprintf(`timestamp >= %q AND timestamp <= %q`, ...)\<close> on the two
  formatted instants, and stays the empty string unless both instants are set.
\<close>

definition timeFilter :: "'t stdlib \<Rightarrow> 't \<Rightarrow> 't \<Rightarrow> string" where
  "timeFilter lib t1 t2 =
     (if \<not> IsZero lib t1 \<and> \<not> IsZero lib t2
      then ''timestamp >= '' @ Quote lib (FormatRFC3339 lib t1) @
           '' AND timestamp <= '' @ Quote lib (FormatRFC3339 lib t2)
      else '''')"

definition buildFilter :: "'t stdlib \<Rightarrow> 't \<Rightarrow> 't \<Rightarrow> string \<Rightarrow> string" where
  "buildFilter lib t1 t2 userFilter =
     (if timeFilter lib t1 t2 = '''' then userFilter
      else if userFilter = '''' then timeFilter lib t1 t2
      else ''('' @ userFilter @ '') AND '' @ timeFilter lib t1 t2)"

section \<open>internal/logadmin: the request of a listing\<close>

record ListLogEntriesRequest =
  ResourceNames :: "string list"
  Filter :: string
  OrderBy :: string
  PageSize :: "32 word"

text \<open>The option types of the package, each with its method \<^verbatim>\<open>set\<close>.\<close>

datatype EntriesOption =
    projectIDs "string list"
  | resourceNames "string list"
  | filterOpt string
  | newestFirst
  | pageSize "32 word"

fun set_opt :: "EntriesOption \<Rightarrow> ListLogEntriesRequest \<Rightarrow> ListLogEntriesRequest" where
  "set_opt (projectIDs p) r = r\<lparr>ResourceNames := map (\<lambda>v. ''projects/'' @ v) p\<rparr>"
| "set_opt (resourceNames rn) r = r\<lparr>ResourceNames := rn\<rparr>"
| "set_opt (filterOpt f) r = r\<lparr>Filter := f\<rparr>"
| "set_opt newestFirst r = r\<lparr>OrderBy := ''timestamp desc''\<rparr>"
| "set_opt (pageSize p) r = r\<lparr>PageSize := p\<rparr>"

text \<open>\<^verbatim>\<open>strings.Contains\<close>: the second string occurs in the first as a contiguous run.\<close>

fun Contains :: "string \<Rightarrow> string \<Rightarrow> bool" where
  "Contains [] substr = (substr = [])"
| "Contains (c # s) substr = (take (length substr) (c # s) = substr \<or> Contains s substr)"

definition dquote :: string where
  "dquote = [CHR 0x22]"

text \<open>
  \<^verbatim>\<open>dayAgo := time.Now().Add(-24 * time.Hour).UTC()\<close>, then the three cases of the
  switch. The format strings are \<^verbatim>\<open>`timestamp >= "%s"`\<close> and
  \<^verbatim>\<open>`%s AND timestamp >= "%s"`\<close>: the double quotes are literal.
\<close>

definition dayAgo :: "'t stdlib \<Rightarrow> 't \<Rightarrow> 't" where
  "dayAgo lib now = UTC lib (Add lib now (- 24 * Hour))"

definition defaultTimestampFilter :: "'t stdlib \<Rightarrow> 't \<Rightarrow> string \<Rightarrow> string" where
  "defaultTimestampFilter lib now flt =
     (if length flt = 0
      then ''timestamp >= '' @ dquote @ FormatRFC3339 lib (dayAgo lib now) @ dquote
      else if \<not> Contains (ToLower lib flt) ''timestamp''
      then flt @ '' AND timestamp >= '' @ dquote @ FormatRFC3339 lib (dayAgo lib now) @ dquote
      else flt)"

definition listLogEntriesRequest ::
  "'t stdlib \<Rightarrow> 't \<Rightarrow> string \<Rightarrow> EntriesOption list \<Rightarrow> ListLogEntriesRequest" where
  "listLogEntriesRequest lib now parent opts =
     (let req = foldl (\<lambda>r opt. set_opt opt r)
                  \<lparr>ResourceNames = [parent], Filter = '''', OrderBy = '''', PageSize = 0\<rparr> opts
      in req\<lparr>Filter := defaultTimestampFilter lib now (Filter req)\<rparr>)"

text \<open>
  The options the command passes to \<^verbatim>\<open>client.Entries\<close> (the body of \<^verbatim>\<open>Run\<close>): the page
  size, the built filter and, for the descending order, \<^verbatim>\<open>NewestFirst\<close>.
\<close>

definition runOptions :: "string \<Rightarrow> bool \<Rightarrow> EntriesOption list" where
  "runOptions allFilters desc =
     [pageSize 1000, filterOpt allFilters] @ (if desc then [newestFirst] else [])"

section \<open>cmd/root.go: the fetch loop\<close>

subsection \<open>Errors of a page fetch\<close>

text \<open>
  The loop looks at the \<^verbatim>\<open>error\<close> of a page fetch in four ways, and an error value is
  modelled by what each of them sees:
  \<^item> \<^verbatim>\<open>errors.Is(err, context.Canceled)\<close>;
  \<^item> \<^verbatim>\<open>err.Error()\<close>, the message;
  \<^item> the type assertion \<^verbatim>\<open>err.(*apierror.APIError)\<close>, and then \<^verbatim>\<open>Reason()\<close> and
    \<^verbatim>\<open>Metadata()\<close> of the API error;
  \<^item> \<^verbatim>\<open>status.FromError(err)\<close>, and then \<^verbatim>\<open>Code()\<close> of the status when the
    conversion succeeded.
  An API error carries the status it was made from, so the last two go together. The
  first two are what a cancellation and the end of the iterator look like; an API error
  of a page fetch is neither: it wraps the status error of the call, which
  \<^verbatim>\<open>errors.Is\<close> does not take for \<^verbatim>\<open>context.Canceled\<close>, and its message ends with the
  details of the API error. The record does not impose this; the statements about API
  errors say it of the error at hand.
\<close>

record APIError =
  Reason :: string
  Metadata :: "string \<rightharpoonup> string"

type_synonym Code = nat

definition Unauthenticated :: Code where
  "Unauthenticated = 16"

record error =
  IsCanceled :: bool
  Error :: string
  asAPIError :: "APIError option"
  FromError :: "Code option"

text \<open>\<^verbatim>\<open>errors.New(text)\<close>: a plain error that is nothing but its message.\<close>

definition errors_New :: "string \<Rightarrow> error" where
  "errors_New text = \<lparr>IsCanceled = False, Error = text, asAPIError = None, FromError = None\<rparr>"

text \<open>Reading a Go map of strings: a missing key reads as the empty string.\<close>

definition lookup :: "(string \<rightharpoonup> string) \<Rightarrow> string \<Rightarrow> string" where
  "lookup m k = (case m k of None \<Rightarrow> '''' | Some v \<Rightarrow> v)"

subsection \<open>What the loop does to the outside\<close>

text \<open>The lines the program writes to the log, one constructor for each logging call.\<close>

datatype log_line =
    RateLimitExceededQuota string string
    \<comment> \<open>\<^verbatim>\<open>log.Printf("Rate limit exceeded (%s: %s), sleeping...", quotaLimit, quotaLimitValue)\<close>\<close>
  | RateLimitExceeded
    \<comment> \<open>\<^verbatim>\<open>log.Println("Rate limit exceeded, sleeping...")\<close>\<close>
  | ApiErr string
    \<comment> \<open>\<^verbatim>\<open>log.Println(apiErr)\<close>, which prints the message of the error\<close>
  | Dot
    \<comment> \<open>\<^verbatim>\<open>log.Println(".")\<close>\<close>
  | RateLimitExpired
    \<comment> \<open>\<^verbatim>\<open>log.Println("Rate limit expired")\<close>\<close>
  | ErrorMarshaling string string
    \<comment> \<open>\<^verbatim>\<open>log.Printf("Error marshaling log entry (%s): %v", entry.InsertId, err)\<close>\<close>

fun text_of :: "log_line \<Rightarrow> string" where
  "text_of (RateLimitExceededQuota q v) = ''Rate limit exceeded ('' @ q @ '': '' @ v @ ''), sleeping...''"
| "text_of RateLimitExceeded = ''Rate limit exceeded, sleeping...''"
| "text_of (ApiErr m) = m"
| "text_of Dot = ''.''"
| "text_of RateLimitExpired = ''Rate limit expired''"
| "text_of (ErrorMarshaling i m) = ''Error marshaling log entry ('' @ i @ ''): '' @ m"

text \<open>The effects of the loop, in the order in which they happen.\<close>

datatype event =
    Entries "EntriesOption list"
    \<comment> \<open>\<^verbatim>\<open>client.Entries(ctx, opts...)\<close>: a new cursor\<close>
  | NewPager nat string
    \<comment> \<open>\<^verbatim>\<open>iterator.NewPager(it, 1000, currentToken)\<close>\<close>
  | NextPage string
    \<comment> \<open>\<^verbatim>\<open>pager.NextPage(&entries)\<close>, with the token the pager is at\<close>
  | Sleep Duration
    \<comment> \<open>\<^verbatim>\<open>time.Sleep\<close>\<close>
  | Log log_line
  | Println string
    \<comment> \<open>\<^verbatim>\<open>fmt.Println\<close> on the standard output\<close>

subsection \<open>handleRateLimitError\<close>

text \<open>The result of the function and the effects of the call.\<close>

definition handleRateLimitError :: "error \<Rightarrow> bool \<Rightarrow> bool \<times> event list" where
  "handleRateLimitError err rateLimited =
     (case asAPIError err of
        None \<Rightarrow> (False, [])
      | Some apiErr \<Rightarrow>
          if Reason apiErr = ''RATE_LIMIT_EXCEEDED''
          then (True,
                (if \<not> rateLimited
                 then (let quotaLimit = lookup (Metadata apiErr) ''quota_limit'';
                           quotaLimitValue = lookup (Metadata apiErr) ''quota_limit_value''
                       in if quotaLimit \<noteq> '''' \<and> quotaLimitValue \<noteq> ''''
                          then [Log (RateLimitExceededQuota quotaLimit quotaLimitValue)]
                          else [Log RateLimitExceeded, Log (ApiErr (Error err))])
                 else [Log Dot])
                @ [Sleep (1 * Second)])
          else (False, []))"

subsection \<open>fetchAndProcessLogs\<close>

text \<open>
  A log entry is opaque to the program but for its \<^verbatim>\<open>InsertId\<close>.
\<close>

record LogEntry =
  InsertId :: string
  Payload :: string

text \<open>
  What \<^verbatim>\<open>pager.NextPage(&entries)\<close> gives back: the entries and the next token, or an
  error.
\<close>

datatype page = Page "LogEntry list" string | Failure error

text \<open>
  The collaborators of the loop. \<open>opts\<close> are the options of the listing. \<open>backend n tok\<close>
  is the answer to the \<open>n\<close>-th page fetch of the run (counted from 0) when the pager is at
  the token \<open>tok\<close>. \<open>Marshal\<close> is \<^verbatim>\<open>protojson.MarshalOptions{Multiline: false}.Marshal\<close>:
  the JSON text, or the message of the error.
\<close>

record env =
  opts :: "EntriesOption list"
  backend :: "nat \<Rightarrow> string \<Rightarrow> page"
  Marshal :: "LogEntry \<Rightarrow> string + string"

text \<open>
  The variables of the loop: \<^verbatim>\<open>rateLimited\<close> and \<^verbatim>\<open>currentToken\<close>; the token the
  current pager is at (\<^verbatim>\<open>NewPager\<close> starts it at its argument, and a successful
  \<^verbatim>\<open>NextPage\<close> leaves it at the token it returns); the number of page fetches made; and
  the effects so far.
\<close>

record loop_state =
  rateLimited :: bool
  currentToken :: string
  pagerToken :: string
  fetches :: nat
  trace :: "event list"

definition emit :: "event list \<Rightarrow> loop_state \<Rightarrow> loop_state" where
  "emit evs st = st\<lparr>trace := trace st @ evs\<rparr>"

text \<open>
  The head of the outer loop: \<^verbatim>\<open>it := client.Entries(ctx, opts...)\<close> and
  \<^verbatim>\<open>pager := iterator.NewPager(it, 1000, currentToken)\<close>.
\<close>

definition openCursor :: "env \<Rightarrow> loop_state \<Rightarrow> loop_state" where
  "openCursor e st =
     (emit [Entries (opts e), NewPager 1000 (currentToken st)] st)\<lparr>pagerToken := currentToken st\<rparr>"

text \<open>The loop over the entries of a page: an entry that fails to marshal is logged and skipped.\<close>

fun processEntries :: "env \<Rightarrow> LogEntry list \<Rightarrow> event list" where
  "processEntries e [] = []"
| "processEntries e (entry # entries) =
     (case Marshal e entry of
        Inl err \<Rightarrow> Log (ErrorMarshaling (InsertId entry) err) # processEntries e entries
      | Inr jsonBytes \<Rightarrow> Println jsonBytes # processEntries e entries)"

definition unauthenticated :: error where
  "unauthenticated =
     errors_New ''unauthenticated, please run `gcloud auth application-default login` and try again''"

text \<open>
  One pass through the body of the inner loop. It either goes on (with the same pager, or,
  after \<^verbatim>\<open>break\<close>, through the head of the outer loop with a new one) or leaves the
  function with the error it returns (\<open>None\<close> for nil).
\<close>

datatype step = Continue loop_state | Return "error option" loop_state

definition nextPage :: "env \<Rightarrow> loop_state \<Rightarrow> step" where
  "nextPage e st =
     (let st1 = (emit [NextPage (pagerToken st)] st)\<lparr>fetches := Suc (fetches st)\<rparr>
      in case backend e (fetches st) (pagerToken st) of
           Failure err \<Rightarrow>
             if IsCanceled err \<or> Error err = ''no more items in iterator''
             then Return None st1
             else (let (limited, evs) = handleRateLimitError err (rateLimited st1);
                       st2 = (emit evs st1)\<lparr>rateLimited := limited\<rparr>
                   in if limited then Continue (openCursor e st2)
                      else if FromError err = Some Unauthenticated
                      then Return (Some unauthenticated) st2
                      else Return (Some err) st2)
         | Page entries nextToken \<Rightarrow>
             (let st2 = (if rateLimited st1
                         then (emit [Log RateLimitExpired] st1)\<lparr>rateLimited := False\<rparr>
                         else st1);
                  st3 = emit (processEntries e entries) st2
              in if nextToken = '''' then Return None st3
                 else Continue (st3\<lparr>currentToken := nextToken, pagerToken := nextToken\<rparr>)))"

text \<open>
  The loop has no bound of its own: a backend that never runs out of pages, or that
  limits the rate forever, keeps it running. \<open>fuel\<close> bounds the number of page fetches;
  \<open>None\<close> is a run that is still going when the fuel is spent.
\<close>

fun fetchPages :: "nat \<Rightarrow> env \<Rightarrow> loop_state \<Rightarrow> (error option \<times> loop_state) option" where
  "fetchPages 0 e st = None"
| "fetchPages (Suc fuel) e st =
     (case nextPage e st of
        Continue st' \<Rightarrow> fetchPages fuel e st'
      | Return r st' \<Rightarrow> Some (r, st'))"

definition initial :: loop_state where
  "initial = \<lparr>rateLimited = False, currentToken = '''', pagerToken = '''', fetches = 0, trace = []\<rparr>"

definition fetchAndProcessLogs :: "nat \<Rightarrow> env \<Rightarrow> (error option \<times> loop_state) option" where
  "fetchAndProcessLogs fuel e = fetchPages fuel e (openCursor e initial)"

text \<open>The lines on the standard output and the tokens of the page fetches, in order.\<close>

fun stdout :: "event list \<Rightarrow> string list" where
  "stdout [] = []"
| "stdout (Println s # evs) = s # stdout evs"
| "stdout (ev # evs) = stdout evs"

fun requests :: "event list \<Rightarrow> string list" where
  "requests [] = []"
| "requests (NextPage tok # evs) = tok # requests evs"
| "requests (ev # evs) = requests evs"

text \<open>
  The two log lines that announce the rate limit, \<^verbatim>\<open>Rate limit exceeded (...), sleeping...\<close>
  and \<^verbatim>\<open>Rate limit exceeded, sleeping...\<close>.
\<close>

fun isExceeded :: "event \<Rightarrow> bool" where
  "isExceeded (Log (RateLimitExceededQuota q v)) = True"
| "isExceeded (Log RateLimitExceeded) = True"
| "isExceeded ev = False"




section \<open>Simulated backends and a library instance\<close>

text \<open>
  A backend that serves a fixed paged result set: the page at a token, and the token
  after it, do not depend on when the page is asked for.
\<close>

definition resultSet :: "(string \<Rightarrow> LogEntry list \<times> string) \<Rightarrow> nat \<Rightarrow> string \<Rightarrow> page" where
  "resultSet pages n tok = Page (fst (pages tok)) (snd (pages tok))"


text \<open>
  An instance of the library for worked examples. The time is the count of nanoseconds
  since the zero instant; quoting is for texts without quotes, backslashes or control
  characters; lower-casing is for ASCII; parsing and formatting are tables of the values
  the examples use.
\<close>

definition asciiLower :: "char \<Rightarrow> char" where
  "asciiLower c =
     (case map_of (zip ''ABCDEFGHIJKLMNOPQRSTUVWXYZ'' ''abcdefghijklmnopqrstuvwxyz'') c of
        Some l \<Rightarrow> l
      | None \<Rightarrow> c)"

definition jan1 :: int where
  "jan1 = 63839664000 * 1000000000"

definition jan2 :: int where
  "jan2 = jan1 + 86400 * 1000000000"

definition exampleLib :: "int stdlib" where
  "exampleLib =
     \<lparr>Quote = (\<lambda>s. dquote @ s @ dquote),
      ToLower = map asciiLower,
      ParseDuration = (\<lambda>s. if s = ''12h30m'' then (12 * Hour + 30 * Minute, None)
                           else if s = ''2h'' then (2 * Hour, None)
                           else (0, Some ''time: invalid duration'')),
      ParseRFC3339 = (\<lambda>s. if s = ''2024-01-01T00:00:00Z'' then (jan1, None)
                          else if s = ''2024-01-02T00:00:00Z'' then (jan2, None)
                          else (0, Some ''parsing time: cannot parse'')),
      FormatRFC3339 = (\<lambda>t. if t = jan1 then ''2024-01-01T00:00:00Z''
                           else if t = jan2 then ''2024-01-02T00:00:00Z''
                           else ''0001-01-01T00:00:00Z''),
      IsZero = (\<lambda>t. t = 0),
      Add = (\<lambda>t d. t + sint d),
      UTC = (\<lambda>t. t),
      zeroTime = 0\<rparr>"



definition canceledError :: error where
  "canceledError =
     \<lparr>IsCanceled = True, Error = ''context canceled'', asAPIError = None, FromError = None\<rparr>"

definition unauthenticatedError :: error where
  "unauthenticatedError =
     \<lparr>IsCanceled = False,
      Error = ''rpc error: code = Unauthenticated desc = Request had invalid authentication credentials'',
      asAPIError = Some \<lparr>Reason = ''ACCESS_TOKEN_EXPIRED'', Metadata = Map.empty\<rparr>,
      FromError = Some 16\<rparr>"

text \<open>
  A result set of three pages, at the tokens \<^verbatim>\<open>""\<close>, \<^verbatim>\<open>"t1"\<close> and \<^verbatim>\<open>"t2"\<close>, and a
  marshaller that fails on the entry \<^verbatim>\<open>b\<close>.
\<close>

definition entry :: "string \<Rightarrow> LogEntry" where
  "entry i = \<lparr>InsertId = i, Payload = ''payload of '' @ i\<rparr>"

definition examplePages :: "string \<Rightarrow> LogEntry list \<times> string" where
  "examplePages tok =
     (if tok = '''' then ([entry ''a'', entry ''b'', entry ''c''], ''t1'')
      else if tok = ''t1'' then ([entry ''d''], ''t2'')
      else if tok = ''t2'' then ([entry ''e''], '''')
      else ([], ''''))"

definition exampleTokens :: "nat \<Rightarrow> string" where
  "exampleTokens i = (if i = 1 then ''t1'' else if i = 2 then ''t2'' else '''')"

definition exampleMarshal :: "LogEntry \<Rightarrow> string + string" where
  "exampleMarshal x =
     (if InsertId x = ''b'' then Inl ''proto: field contains invalid UTF-8''
      else Inr (''{insertId: '' @ InsertId x @ ''}''))"

definition exampleEnv :: env where
  "exampleEnv =
     \<lparr>opts = runOptions ''severity=ERROR'' True,
      backend = resultSet examplePages,
      Marshal = exampleMarshal\<rparr>"



section \<open>Properties of the query builder\<close>

lemma timeFilter_empty_iff: "timeFilter lib t1 t2 = '''' \<longleftrightarrow> IsZero lib t1 \<or> IsZero lib t2"
  by (simp add: timeFilter_def)

text \<open>
  C4. The filter builder. With no time window (one of the two instants is zero) the user
  filter is returned unchanged, so with no user filter either the result is the empty
  string. With a time window and no user filter the result is the time filter,
  \<^verbatim>\<open>timestamp >= %q AND timestamp <= %q\<close> on the two formatted instants, which is exactly
  \<^verbatim>\<open>timestamp >= "<from>" AND timestamp <= "<to>"\<close> as \<^verbatim>\<open>%q\<close> puts a formatted instant
  between double quotes. With both, the result is the user filter in parentheses,
  \<^verbatim>\<open>AND\<close>, and the time filter: the parentheses appear only when both parts are there.
\<close>

theorem buildFilter_cases:
  "(IsZero lib t1 \<or> IsZero lib t2 \<longrightarrow> buildFilter lib t1 t2 userFilter = userFilter)
   \<and> (\<not> IsZero lib t1 \<and> \<not> IsZero lib t2 \<longrightarrow>
        buildFilter lib t1 t2 '''' =
          ''timestamp >= '' @ Quote lib (FormatRFC3339 lib t1) @
          '' AND timestamp <= '' @ Quote lib (FormatRFC3339 lib t2))
   \<and> (\<not> IsZero lib t1 \<and> \<not> IsZero lib t2 \<and> userFilter \<noteq> '''' \<longrightarrow>
        buildFilter lib t1 t2 userFilter =
          ''('' @ userFilter @ '') AND '' @ buildFilter lib t1 t2 '''')
   \<and> (IsZero lib t1 \<or> IsZero lib t2 \<longrightarrow> buildFilter lib t1 t2 '''' = '''')
   \<and> (\<not> IsZero lib t1 \<and> \<not> IsZero lib t2
        \<and> Quote lib (FormatRFC3339 lib t1) = dquote @ FormatRFC3339 lib t1 @ dquote
        \<and> Quote lib (FormatRFC3339 lib t2) = dquote @ FormatRFC3339 lib t2 @ dquote \<longrightarrow>
        buildFilter lib t1 t2 '''' =
          ''timestamp >= '' @ dquote @ FormatRFC3339 lib t1 @ dquote @
          '' AND timestamp <= '' @ dquote @ FormatRFC3339 lib t2 @ dquote)"
  by (simp add: buildFilter_def timeFilter_def)

theorem buildFilter_cases_witness:
  "buildFilter exampleLib jan1 jan2 ''severity=ERROR'' =
     ''(severity=ERROR) AND timestamp >= '' @ dquote @ ''2024-01-01T00:00:00Z'' @ dquote @
     '' AND timestamp <= '' @ dquote @ ''2024-01-02T00:00:00Z'' @ dquote
   \<and> buildFilter exampleLib jan1 jan2 '''' =
     ''timestamp >= '' @ dquote @ ''2024-01-01T00:00:00Z'' @ dquote @
     '' AND timestamp <= '' @ dquote @ ''2024-01-02T00:00:00Z'' @ dquote
   \<and> buildFilter exampleLib 0 0 ''severity=ERROR'' = ''severity=ERROR''
   \<and> buildFilter exampleLib jan1 0 ''severity=ERROR'' = ''severity=ERROR''
   \<and> buildFilter exampleLib 0 0 '''' = ''''"
proof -
  have nz: "\<not> IsZero exampleLib jan1 \<and> \<not> IsZero exampleLib jan2"
    by (simp add: exampleLib_def jan1_def jan2_def)
  have z: "IsZero exampleLib 0"
    by (simp add: exampleLib_def)
  have q: "Quote exampleLib (FormatRFC3339 exampleLib jan1) = dquote @ FormatRFC3339 exampleLib jan1 @ dquote"
     "Quote exampleLib (FormatRFC3339 exampleLib jan2) = dquote @ FormatRFC3339 exampleLib jan2 @ dquote"
    by (simp_all add: exampleLib_def)
  have f: "FormatRFC3339 exampleLib jan1 = ''2024-01-01T00:00:00Z''"
     "FormatRFC3339 exampleLib jan2 = ''2024-01-02T00:00:00Z''"
    by (simp_all add: exampleLib_def jan1_def jan2_def)
  show ?thesis
    using buildFilter_cases [of exampleLib jan1 jan2 "''severity=ERROR''"]
      buildFilter_cases [of exampleLib 0 0 "''severity=ERROR''"]
      buildFilter_cases [of exampleLib jan1 0 "''severity=ERROR''"]
      nz z q f
    by simp
qed

lemma take_eq_iff_prefix: "take (length sub) s = sub \<longleftrightarrow> (\<exists>post. s = sub @ post)"
  by (metis append_eq_conv_conj append_take_drop_id)

lemma Contains_iff: "Contains s sub \<longleftrightarrow> (\<exists>pre post. s = pre @ sub @ post)"
proof (induction s)
  case Nil
  then show ?case by auto
next
  case (Cons c s)
  show ?case
  proof
    assume "Contains (c # s) sub"
    then consider "take (length sub) (c # s) = sub" | "Contains s sub" by auto
    then show "\<exists>pre post. c # s = pre @ sub @ post"
    proof cases
      case 1
      then obtain post where "c # s = sub @ post" using take_eq_iff_prefix by metis
      then have "c # s = [] @ sub @ post" by simp
      then show ?thesis by blast
    next
      case 2
      then obtain pre post where "s = pre @ sub @ post" using Cons.IH by blast
      then have "c # s = (c # pre) @ sub @ post" by simp
      then show ?thesis by blast
    qed
  next
    assume "\<exists>pre post. c # s = pre @ sub @ post"
    then obtain pre post where eq: "c # s = pre @ sub @ post" by blast
    show "Contains (c # s) sub"
    proof (cases pre)
      case Nil
      then have "take (length sub) (c # s) = sub" using eq take_eq_iff_prefix [of sub "c # s"] by auto
      then show ?thesis by simp
    next
      case (Cons p pre')
      then have "s = pre' @ sub @ post" using eq by simp
      then have "Contains s sub" using Cons.IH by blast
      then show ?thesis by simp
    qed
  qed
qed

lemma Filter_runOptions:
  "Filter (foldl (\<lambda>r opt. set_opt opt r) r0 (runOptions f desc)) = f"
  by (simp add: runOptions_def)

lemma day_before: "sint (- 24 * Hour :: Duration) = - 86400000000000"
  by (simp add: Hour_def Minute_def Second_def Millisecond_def Microsecond_def Nanosecond_def)

text \<open>
  C10. Every request the logadmin client builds gets its filter from
  \<^verbatim>\<open>defaultTimestampFilter\<close>, applied to the filter the options have assembled. An empty
  filter is replaced by \<^verbatim>\<open>timestamp >= "<t>"\<close>, with \<open>t\<close> the instant 24 hours before now,
  in UTC and formatted as RFC3339. A filter that is not empty and whose lower-cased text
  does not contain \<^verbatim>\<open>timestamp\<close> gets the same predicate appended with \<^verbatim>\<open>AND\<close>. A filter
  whose lower-cased text contains \<^verbatim>\<open>timestamp\<close> anywhere is passed through unchanged
  (the empty filter contains nothing and is the first case).
\<close>

theorem defaultTimestampFilter_cases:
  "Filter (listLogEntriesRequest lib now parent options) =
     defaultTimestampFilter lib now
       (Filter (foldl (\<lambda>r opt. set_opt opt r)
          \<lparr>ResourceNames = [parent], Filter = '''', OrderBy = '''', PageSize = 0\<rparr> options))
   \<and> defaultTimestampFilter lib now '''' =
       ''timestamp >= '' @ dquote @ FormatRFC3339 lib (UTC lib (Add lib now (- 24 * Hour))) @ dquote
   \<and> (flt \<noteq> '''' \<and> \<not> (\<exists>pre post. ToLower lib flt = pre @ ''timestamp'' @ post) \<longrightarrow>
        defaultTimestampFilter lib now flt =
          flt @ '' AND timestamp >= '' @ dquote @
          FormatRFC3339 lib (UTC lib (Add lib now (- 24 * Hour))) @ dquote)
   \<and> (flt \<noteq> '''' \<and> (\<exists>pre post. ToLower lib flt = pre @ ''timestamp'' @ post) \<longrightarrow>
        defaultTimestampFilter lib now flt = flt)
   \<and> sint (- 24 * Hour :: Duration) = - 86400000000000"
  unfolding Contains_iff [symmetric]
  using day_before
  by (simp add: listLogEntriesRequest_def defaultTimestampFilter_def dayAgo_def Let_def)

theorem defaultTimestampFilter_cases_witness:
  "Filter (listLogEntriesRequest exampleLib jan2 ''projects/p'' (runOptions ''severity=ERROR'' True)) =
     ''severity=ERROR AND timestamp >= '' @ dquote @ ''2024-01-01T00:00:00Z'' @ dquote
   \<and> defaultTimestampFilter exampleLib jan2 ''textPayload: TimeStamp'' = ''textPayload: TimeStamp''"
proof -
  have 1: "''severity=ERROR'' \<noteq> '''' \<and> \<not> (\<exists>pre post. ToLower exampleLib ''severity=ERROR'' = pre @ ''timestamp'' @ post)"
    unfolding Contains_iff [symmetric] by (simp add: exampleLib_def asciiLower_def)
  have 2: "''textPayload: TimeStamp'' \<noteq> '''' \<and> (\<exists>pre post. ToLower exampleLib ''textPayload: TimeStamp'' = pre @ ''timestamp'' @ post)"
    unfolding Contains_iff [symmetric] by (simp add: exampleLib_def asciiLower_def)
  have 3: "FormatRFC3339 exampleLib (UTC exampleLib (Add exampleLib jan2 (- 24 * Hour))) = ''2024-01-01T00:00:00Z''"
    by (simp add: exampleLib_def jan2_def jan1_def Hour_def Minute_def Second_def
        Millisecond_def Microsecond_def Nanosecond_def)
  show ?thesis
    using defaultTimestampFilter_cases [of exampleLib jan2 "''projects/p''" "runOptions ''severity=ERROR'' True" "''severity=ERROR''"]
      defaultTimestampFilter_cases [of exampleLib jan2 "''projects/p''" "[]" "''textPayload: TimeStamp''"]
      1 2 3
    by (simp add: Filter_runOptions)
qed

lemma not_isDigit_d: "\<not> isDigit CHR ''d''"
  by (simp add: isDigit_def)

lemma isDigit_not_lf: "isDigit c \<Longrightarrow> c \<noteq> CHR 0x0A"
  by (auto simp: isDigit_def)

lemma isDigit_not_sign: "isDigit c \<Longrightarrow> c \<noteq> CHR ''-'' \<and> c \<noteq> CHR ''+''"
  by (auto simp: isDigit_def)

lemma digitValue_nonneg: "isDigit c \<Longrightarrow> 0 \<le> digitValue c"
  by (auto simp: isDigit_def digitValue_def)

lemma foldl_digits_nonneg:
  "list_all isDigit ds \<Longrightarrow> 0 \<le> n \<Longrightarrow> 0 \<le> foldl (\<lambda>n c. 10 * n + digitValue c) n ds"
proof (induction ds arbitrary: n)
  case Nil
  then show ?case by simp
next
  case (Cons c ds)
  then have "0 \<le> 10 * n + digitValue c" using digitValue_nonneg [of c] by simp
  then show ?case using Cons by simp
qed

lemma decimal_nonneg: "list_all isDigit ds \<Longrightarrow> 0 \<le> decimal ds"
  by (simp add: decimal_def foldl_digits_nonneg)

lemma Atoi_digits:
  assumes "ds \<noteq> []" and "list_all isDigit ds"
  shows "Atoi ds = (if decimal ds > maxInt
                    then (maxInt, Some ''strconv.Atoi: parsing: value out of range'')
                    else (decimal ds, None))"
proof -
  obtain c cs where ds: "ds = c # cs" using assms(1) by (cases ds) auto
  then have "isDigit c" using assms(2) by simp
  then have sign: "c \<noteq> CHR ''-''" "c \<noteq> CHR ''+''" using isDigit_not_sign by auto
  have "minInt \<le> decimal ds" using decimal_nonneg [OF assms(2)] by (simp add: minInt_def)
  then show ?thesis using assms sign ds by (simp add: Atoi_def Let_def)
qed

lemma FindStringSubmatch_days:
  assumes "ds \<noteq> []" and "list_all isDigit ds" and "CHR 0x0A \<notin> set rest"
  shows "FindStringSubmatch (ds @ ''d'' @ rest) = [ds @ ''d'' @ rest, ds, rest]"
proof -
  have all: "\<And>x. x \<in> set ds \<Longrightarrow> isDigit x" using assms(2) by (simp add: list_all_iff)
  have t: "takeWhile isDigit (ds @ ''d'' @ rest) = ds"
    using all by (simp add: takeWhile_append2 not_isDigit_d)
  have d: "dropWhile isDigit (ds @ ''d'' @ rest) = ''d'' @ rest"
    using all by (simp add: dropWhile_append2 not_isDigit_d)
  have lf: "CHR 0x0A \<notin> set (ds @ ''d'' @ rest)"
    using assms(3) all isDigit_not_lf by auto
  show ?thesis
    unfolding FindStringSubmatch_def using t d lf assms(1) by (simp del: set_append)
qed

lemma FindStringSubmatch_other:
  assumes "CHR 0x0A \<notin> set s"
    and "\<not> (\<exists>ds rest. ds \<noteq> [] \<and> list_all isDigit ds \<and> s = ds @ ''d'' @ rest)"
  shows "FindStringSubmatch s = [s, [], s]"
proof (cases "dropWhile isDigit s")
  case Nil
  then show ?thesis using assms(1)
    by (simp add: FindStringSubmatch_def del: dropWhile_eq_Nil_conv)
next
  case (Cons c rest)
  have "\<not> (takeWhile isDigit s \<noteq> [] \<and> c = CHR ''d'')"
  proof
    assume a: "takeWhile isDigit s \<noteq> [] \<and> c = CHR ''d''"
    have "s = takeWhile isDigit s @ dropWhile isDigit s" by simp
    then have "s = takeWhile isDigit s @ ''d'' @ rest" using Cons a by simp
    moreover have "list_all isDigit (takeWhile isDigit s)"
      by (simp add: list_all_iff) (meson set_takeWhileD)
    ultimately show False using assms(2) a by blast
  qed
  then show ?thesis using assms(1) Cons by (auto simp: FindStringSubmatch_def)
qed

lemma parseFreshness_days:
  assumes "ds \<noteq> []" and "list_all isDigit ds" and "CHR 0x0A \<notin> set rest"
  shows "parseFreshness lib (ds @ ''d'' @ rest) =
          (if decimal ds > maxInt
           then Returns (0, Some (invalidFreshness lib (ds @ ''d'' @ rest)))
           else if rest = ''''
           then Returns (word_of_int (decimal ds) * 24 * Hour, None)
           else (case ParseDuration lib rest of
                   (other, None) \<Rightarrow> Returns (word_of_int (decimal ds) * 24 * Hour + other, None)
                 | (other, Some err) \<Rightarrow> Returns (0, Some (invalidFreshness lib (ds @ ''d'' @ rest)))))"
proof -
  have ne: "ds @ ''d'' @ rest \<noteq> ''''" by simp
  show ?thesis
    unfolding parseFreshness_def FindStringSubmatch_days [OF assms] if_not_P [OF ne]
    using assms(1) by (simp add: Atoi_digits [OF assms(1,2)] split: prod.splits option.splits)
qed

lemma parseFreshness_remainder:
  assumes "s \<noteq> ''''" and "CHR 0x0A \<notin> set s"
    and "\<not> (\<exists>ds rest. ds \<noteq> [] \<and> list_all isDigit ds \<and> s = ds @ ''d'' @ rest)"
  shows "parseFreshness lib s =
          (case ParseDuration lib s of
             (other, None) \<Rightarrow> Returns (other, None)
           | (other, Some err) \<Rightarrow> Returns (0, Some (invalidFreshness lib s)))"
  unfolding parseFreshness_def FindStringSubmatch_other [OF assms(2,3)]
  using assms(1) by (simp split: prod.splits option.splits)

lemma sum_exact:
  assumes "- (2 ^ 63) \<le> n * 86400000000000 + sint other"
    and "n * 86400000000000 + sint other < 2 ^ 63"
  shows "sint (word_of_int n * 24 * Hour + other :: Duration) = n * 86400000000000 + sint other"
proof -
  have "other = word_of_int (sint other)" by simp
  then have "(word_of_int n * 24 * Hour + other :: Duration) =
        word_of_int (n * 86400000000000) + word_of_int (sint other)"
    by (simp add: Hour_def Minute_def Second_def Millisecond_def Microsecond_def Nanosecond_def)
  also have "\<dots> = word_of_int (n * 86400000000000 + sint other)" by simp
  finally have eq: "(word_of_int n * 24 * Hour + other :: Duration) =
        word_of_int (n * 86400000000000 + sint other)" .
  have "sint (word_of_int (n * 86400000000000 + sint other) :: Duration) =
        n * 86400000000000 + sint other"
    unfolding sint_sbintrunc' using assms
    by (intro signed_take_bit_int_eq_self) simp_all
  then show ?thesis using eq by simp
qed

lemma units: "sint Hour = 3600000000000" "sint Minute = 60000000000"
  by (simp_all add: Hour_def Minute_def Second_def Millisecond_def Microsecond_def Nanosecond_def)

text \<open>
  C3 (amended). \<^verbatim>\<open>parseFreshness\<close> on a text without a line feed.
  \<^item> On \<^verbatim>\<open><digits>d<remainder>\<close> (the remainder may be empty): a day count above the
    largest \<^verbatim>\<open>int\<close>, \<open>2\<^sup>6\<^sup>3 - 1\<close>, is an error; a remainder that is not empty and that
    \<^verbatim>\<open>time.ParseDuration\<close> rejects is an error; otherwise the result is \<open>days * 24h\<close>
    plus the duration \<^verbatim>\<open>time.ParseDuration\<close> gives for the remainder, whenever that sum
    is a \<^verbatim>\<open>time.Duration\<close> (a count of nanoseconds within \<^verbatim>\<open>int64\<close>).
  \<^item> On any other text but the empty one the result is what \<^verbatim>\<open>time.ParseDuration\<close>
    gives for the whole text, or an error when it rejects it.
  \<^item> The empty text is an error, \<^verbatim>\<open>"1d"\<close> is 24h, \<^verbatim>\<open>"1d12h30m"\<close> is 36h30m and
    \<^verbatim>\<open>"2h"\<close> is 2h (given that \<^verbatim>\<open>time.ParseDuration\<close> reads \<^verbatim>\<open>12h30m\<close> and \<^verbatim>\<open>2h\<close>
    so), and \<^verbatim>\<open>"xd"\<close> and \<^verbatim>\<open>"1dxyz"\<close> are errors (given that it rejects \<^verbatim>\<open>xd\<close> and
    \<^verbatim>\<open>xyz\<close>).
\<close>

theorem parseFreshness_cases:
  "(ds \<noteq> [] \<and> list_all isDigit ds \<and> CHR 0x0A \<notin> set rest \<longrightarrow>
      (decimal ds > maxInt \<longrightarrow>
         parseFreshness lib (ds @ ''d'' @ rest) =
           Returns (0, Some (invalidFreshness lib (ds @ ''d'' @ rest))))
    \<and> (decimal ds \<le> maxInt \<and> rest \<noteq> '''' \<and> snd (ParseDuration lib rest) \<noteq> None \<longrightarrow>
         parseFreshness lib (ds @ ''d'' @ rest) =
           Returns (0, Some (invalidFreshness lib (ds @ ''d'' @ rest))))
    \<and> (decimal ds \<le> maxInt \<and> rest = '''' \<and> decimal ds * (24 * 3600 * 1000000000) < 2 ^ 63 \<longrightarrow>
         (\<exists>d. parseFreshness lib (ds @ ''d'' @ rest) = Returns (d, None)
             \<and> sint d = decimal ds * (24 * 3600 * 1000000000)))
    \<and> (decimal ds \<le> maxInt \<and> rest \<noteq> '''' \<and> ParseDuration lib rest = (other, None)
        \<and> - (2 ^ 63) \<le> decimal ds * (24 * 3600 * 1000000000) + sint other
        \<and> decimal ds * (24 * 3600 * 1000000000) + sint other < 2 ^ 63 \<longrightarrow>
         (\<exists>d. parseFreshness lib (ds @ ''d'' @ rest) = Returns (d, None)
             \<and> sint d = decimal ds * (24 * 3600 * 1000000000) + sint other)))
   \<and> (s \<noteq> '''' \<and> CHR 0x0A \<notin> set s
        \<and> \<not> (\<exists>ds rest. ds \<noteq> [] \<and> list_all isDigit ds \<and> s = ds @ ''d'' @ rest) \<longrightarrow>
      parseFreshness lib s =
        (case ParseDuration lib s of
           (other, None) \<Rightarrow> Returns (other, None)
         | (other, Some err) \<Rightarrow> Returns (0, Some (invalidFreshness lib s))))
   \<and> parseFreshness lib '''' = Returns (0, Some (invalidFreshness lib ''''))
   \<and> parseFreshness lib ''1d'' = Returns (24 * Hour, None)
   \<and> (ParseDuration lib ''12h30m'' = (12 * Hour + 30 * Minute, None) \<longrightarrow>
        parseFreshness lib ''1d12h30m'' = Returns (36 * Hour + 30 * Minute, None))
   \<and> (ParseDuration lib ''2h'' = (2 * Hour, None) \<longrightarrow>
        parseFreshness lib ''2h'' = Returns (2 * Hour, None))
   \<and> (snd (ParseDuration lib ''xd'') \<noteq> None \<longrightarrow>
        parseFreshness lib ''xd'' = Returns (0, Some (invalidFreshness lib ''xd'')))
   \<and> (snd (ParseDuration lib ''xyz'') \<noteq> None \<longrightarrow>
        parseFreshness lib ''1dxyz'' = Returns (0, Some (invalidFreshness lib ''1dxyz'')))
   \<and> sint Hour = 3600 * 1000000000 \<and> sint Minute = 60 * 1000000000"
proof -
  have days: "(decimal ds > maxInt \<longrightarrow>
         parseFreshness lib (ds @ ''d'' @ rest) =
           Returns (0, Some (invalidFreshness lib (ds @ ''d'' @ rest))))
    \<and> (decimal ds \<le> maxInt \<and> rest \<noteq> '''' \<and> snd (ParseDuration lib rest) \<noteq> None \<longrightarrow>
         parseFreshness lib (ds @ ''d'' @ rest) =
           Returns (0, Some (invalidFreshness lib (ds @ ''d'' @ rest))))
    \<and> (decimal ds \<le> maxInt \<and> rest = '''' \<and> decimal ds * (24 * 3600 * 1000000000) < 2 ^ 63 \<longrightarrow>
         (\<exists>d. parseFreshness lib (ds @ ''d'' @ rest) = Returns (d, None)
             \<and> sint d = decimal ds * (24 * 3600 * 1000000000)))
    \<and> (decimal ds \<le> maxInt \<and> rest \<noteq> '''' \<and> ParseDuration lib rest = (other, None)
        \<and> - (2 ^ 63) \<le> decimal ds * (24 * 3600 * 1000000000) + sint other
        \<and> decimal ds * (24 * 3600 * 1000000000) + sint other < 2 ^ 63 \<longrightarrow>
         (\<exists>d. parseFreshness lib (ds @ ''d'' @ rest) = Returns (d, None)
             \<and> sint d = decimal ds * (24 * 3600 * 1000000000) + sint other))"
    if h: "ds \<noteq> [] \<and> list_all isDigit ds \<and> CHR 0x0A \<notin> set rest"
  proof -
    note pf = parseFreshness_days [of ds rest lib]
    have nn: "0 \<le> decimal ds" using h decimal_nonneg by blast
    have a: "decimal ds > maxInt \<longrightarrow>
         parseFreshness lib (ds @ ''d'' @ rest) =
           Returns (0, Some (invalidFreshness lib (ds @ ''d'' @ rest)))"
      using pf h by simp
    have b: "decimal ds \<le> maxInt \<and> rest \<noteq> '''' \<and> snd (ParseDuration lib rest) \<noteq> None \<longrightarrow>
         parseFreshness lib (ds @ ''d'' @ rest) =
           Returns (0, Some (invalidFreshness lib (ds @ ''d'' @ rest)))"
      using pf h by (auto split: prod.splits option.splits)
    have c: "\<exists>d. parseFreshness lib (ds @ ''d'' @ rest) = Returns (d, None)
             \<and> sint d = decimal ds * (24 * 3600 * 1000000000)"
      if "decimal ds \<le> maxInt \<and> rest = '''' \<and> decimal ds * (24 * 3600 * 1000000000) < 2 ^ 63"
    proof -
      have "sint (word_of_int (decimal ds) * 24 * Hour + 0 :: Duration) =
              decimal ds * 86400000000000 + sint (0 :: Duration)"
        using that nn by (intro sum_exact) simp_all
      then have "sint (word_of_int (decimal ds) * 24 * Hour :: Duration) =
              decimal ds * (24 * 3600 * 1000000000)" by simp
      moreover have "parseFreshness lib (ds @ ''d'' @ rest) =
              Returns (word_of_int (decimal ds) * 24 * Hour, None)"
        using pf h that by simp
      ultimately show ?thesis by blast
    qed
    have d: "\<exists>d. parseFreshness lib (ds @ ''d'' @ rest) = Returns (d, None)
             \<and> sint d = decimal ds * (24 * 3600 * 1000000000) + sint other"
      if "decimal ds \<le> maxInt \<and> rest \<noteq> '''' \<and> ParseDuration lib rest = (other, None)
        \<and> - (2 ^ 63) \<le> decimal ds * (24 * 3600 * 1000000000) + sint other
        \<and> decimal ds * (24 * 3600 * 1000000000) + sint other < 2 ^ 63"
    proof -
      have "sint (word_of_int (decimal ds) * 24 * Hour + other :: Duration) =
              decimal ds * 86400000000000 + sint other"
        using that by (intro sum_exact) simp_all
      moreover have "parseFreshness lib (ds @ ''d'' @ rest) =
              Returns (word_of_int (decimal ds) * 24 * Hour + other, None)"
        using pf h that by simp
      ultimately show ?thesis by simp
    qed
    show ?thesis using a b c d by blast
  qed
  have one: "decimal ''1'' = 1" "\<not> decimal ''1'' > maxInt"
    by (simp_all add: decimal_def digitValue_def maxInt_def)
  have d1: "''1'' \<noteq> [] \<and> list_all isDigit ''1''" by (simp add: isDigit_def)
  have "parseFreshness lib (''1'' @ ''d'' @ '''') = Returns (word_of_int 1 * 24 * Hour, None)"
    using d1 by (subst parseFreshness_days) (simp_all add: one maxInt_def)
  then have ex1: "parseFreshness lib ''1d'' = Returns (24 * Hour, None)" by simp
  have ex2: "parseFreshness lib ''1d12h30m'' = Returns (36 * Hour + 30 * Minute, None)"
    if "ParseDuration lib ''12h30m'' = (12 * Hour + 30 * Minute, None)"
  proof -
    have "parseFreshness lib (''1'' @ ''d'' @ ''12h30m'') =
            Returns (word_of_int 1 * 24 * Hour + (12 * Hour + 30 * Minute), None)"
      using d1 that by (subst parseFreshness_days) (simp_all add: one maxInt_def)
    then show ?thesis by simp
  qed
  have ex6: "parseFreshness lib ''1dxyz'' = Returns (0, Some (invalidFreshness lib ''1dxyz''))"
    if "snd (ParseDuration lib ''xyz'') \<noteq> None"
  proof -
    have "parseFreshness lib (''1'' @ ''d'' @ ''xyz'') =
            Returns (0, Some (invalidFreshness lib (''1'' @ ''d'' @ ''xyz'')))"
      using d1 that by (subst parseFreshness_days) (auto simp: one maxInt_def split: prod.splits option.splits)
    then show ?thesis by simp
  qed
  have m2h: "FindStringSubmatch ''2h'' = [''2h'', [], ''2h'']"
    by (simp add: FindStringSubmatch_def isDigit_def)
  have mxd: "FindStringSubmatch ''xd'' = [''xd'', [], ''xd'']"
    by (simp add: FindStringSubmatch_def isDigit_def)
  have ex3: "parseFreshness lib ''2h'' = Returns (2 * Hour, None)"
    if "ParseDuration lib ''2h'' = (2 * Hour, None)"
    unfolding parseFreshness_def m2h using that by simp
  have ex5: "parseFreshness lib ''xd'' = Returns (0, Some (invalidFreshness lib ''xd''))"
    if "snd (ParseDuration lib ''xd'') \<noteq> None"
    unfolding parseFreshness_def mxd using that by (auto split: prod.splits option.splits)
  have ex4: "parseFreshness lib '''' = Returns (0, Some (invalidFreshness lib ''''))"
    by (simp add: parseFreshness_def)
  have u: "sint Hour = 3600 * 1000000000 \<and> sint Minute = 60 * 1000000000"
    using units by simp
  show ?thesis
    using days parseFreshness_remainder [of s lib] ex1 ex2 ex3 ex4 ex5 ex6 u
    by blast
qed

theorem parseFreshness_cases_witness:
  "(\<exists>d. parseFreshness exampleLib ''3d2h'' = Returns (d, None) \<and> sint d = 266400000000000)
   \<and> (\<exists>d. parseFreshness exampleLib ''3d'' = Returns (d, None) \<and> sint d = 259200000000000)
   \<and> parseFreshness exampleLib ''3dxyz'' = Returns (0, Some (invalidFreshness exampleLib ''3dxyz''))
   \<and> parseFreshness exampleLib ''9223372036854775808d'' =
       Returns (0, Some (invalidFreshness exampleLib ''9223372036854775808d''))
   \<and> parseFreshness exampleLib ''2h'' = Returns (2 * Hour, None)
   \<and> parseFreshness exampleLib ''1d12h30m'' = Returns (36 * Hour + 30 * Minute, None)
   \<and> parseFreshness exampleLib ''xd'' = Returns (0, Some (invalidFreshness exampleLib ''xd''))
   \<and> parseFreshness exampleLib ''1dxyz'' = Returns (0, Some (invalidFreshness exampleLib ''1dxyz''))"
proof -
  have d3: "''3'' \<noteq> [] \<and> list_all isDigit ''3''" by (simp add: isDigit_def)
  have lf: "CHR 0x0A \<notin> set ''2h''" "CHR 0x0A \<notin> set ''''" "CHR 0x0A \<notin> set ''xyz''"
    by simp_all
  have dec: "decimal ''3'' = 3" "decimal ''3'' \<le> maxInt"
    by (simp_all add: decimal_def digitValue_def maxInt_def)
  have big: "''9223372036854775808'' \<noteq> [] \<and> list_all isDigit ''9223372036854775808''"
    "decimal ''9223372036854775808'' > maxInt"
    by (simp_all add: isDigit_def decimal_def digitValue_def maxInt_def)
  have p: "ParseDuration exampleLib ''12h30m'' = (12 * Hour + 30 * Minute, None)"
    "ParseDuration exampleLib ''2h'' = (2 * Hour, None)"
    "snd (ParseDuration exampleLib ''xd'') \<noteq> None"
    "snd (ParseDuration exampleLib ''xyz'') \<noteq> None"
    by (simp_all add: exampleLib_def)
  have two: "sint (2 * Hour :: Duration) = 7200000000000"
    by (simp add: Hour_def Minute_def Second_def Millisecond_def Microsecond_def Nanosecond_def)
  have nod: "CHR ''d'' \<notin> set ''2h''" by simp
  have h2: "''2h'' \<noteq> '''' \<and> CHR 0x0A \<notin> set ''2h''
      \<and> \<not> (\<exists>ds rest. ds \<noteq> [] \<and> list_all isDigit ds \<and> ''2h'' = ds @ ''d'' @ rest)"
  proof -
    have "\<not> (\<exists>ds rest. ''2h'' = ds @ ''d'' @ rest)"
    proof
      assume "\<exists>ds rest. ''2h'' = ds @ ''d'' @ rest"
      then obtain ds rest where "''2h'' = ds @ ''d'' @ rest" by blast
      then have "CHR ''d'' \<in> set ''2h''" by (metis append_Cons in_set_conv_decomp)
      then show False using nod by blast
    qed
    then show ?thesis by auto
  qed
  note T1 = parseFreshness_cases [where ds = "''3''" and rest = "''2h''" and lib = exampleLib
      and other = "2 * Hour" and s = "''2h''"]
  note T2 = parseFreshness_cases [where ds = "''3''" and rest = "''''" and lib = exampleLib]
  note T3 = parseFreshness_cases [where ds = "''3''" and rest = "''xyz''" and lib = exampleLib]
  note T4 = parseFreshness_cases [where ds = "''9223372036854775808''" and rest = "''''"
      and lib = exampleLib]
  have a: "\<exists>d. parseFreshness exampleLib (''3'' @ ''d'' @ ''2h'') = Returns (d, None)
      \<and> sint d = decimal ''3'' * (24 * 3600 * 1000000000) + sint (2 * Hour :: Duration)"
    using T1 d3 lf dec p two by simp
  have b: "\<exists>d. parseFreshness exampleLib (''3'' @ ''d'' @ '''') = Returns (d, None)
      \<and> sint d = decimal ''3'' * (24 * 3600 * 1000000000)"
    using T2 d3 lf dec by simp
  have c: "parseFreshness exampleLib (''3'' @ ''d'' @ ''xyz'') =
      Returns (0, Some (invalidFreshness exampleLib (''3'' @ ''d'' @ ''xyz'')))"
    using T3 d3 lf dec p by simp
  have d: "parseFreshness exampleLib (''9223372036854775808'' @ ''d'' @ '''') =
      Returns (0, Some (invalidFreshness exampleLib (''9223372036854775808'' @ ''d'' @ '''')))"
    using T4 big lf by simp
  have e: "parseFreshness exampleLib ''2h'' = Returns (2 * Hour, None)"
    "parseFreshness exampleLib ''1d12h30m'' = Returns (36 * Hour + 30 * Minute, None)"
    "parseFreshness exampleLib ''xd'' = Returns (0, Some (invalidFreshness exampleLib ''xd''))"
    "parseFreshness exampleLib ''1dxyz'' = Returns (0, Some (invalidFreshness exampleLib ''1dxyz''))"
    using T1 h2 p by simp_all
  show ?thesis
    using a b c d e dec two by simp
qed

text \<open>
  The claim C3 as it was stated fails on day counts that do not fit: a day count of
  \<open>2\<^sup>6\<^sup>3\<close> is rejected although the text has the form \<^verbatim>\<open><digits>d\<close>, and for 106752
  days the product is not a \<^verbatim>\<open>time.Duration\<close>: what is returned is a negative duration.
\<close>

theorem parseFreshness_counterexample:
  "parseFreshness exampleLib ''9223372036854775808d'' =
     Returns (0, Some (''invalid freshness '' @ dquote @ ''9223372036854775808d'' @ dquote))
   \<and> parseFreshness exampleLib ''106752d'' = Returns (- 9223371273709551616, None)
   \<and> sint (- 9223371273709551616 :: Duration) \<noteq> 106752 * (24 * 3600 * 1000000000)"
  by (simp add: parseFreshness_def FindStringSubmatch_def isDigit_def Atoi_def decimal_def
      digitValue_def maxInt_def minInt_def exampleLib_def invalidFreshness_def Hour_def Minute_def
      Second_def Millisecond_def Microsecond_def Nanosecond_def)

lemma determineTimeWindow_conflict:
  "freshness cmd \<noteq> '''' \<Longrightarrow> fromFlag cmd \<noteq> '''' \<or> toFlag cmd \<noteq> '''' \<Longrightarrow>
     determineTimeWindow lib now cmd =
       Returns (zeroTime lib, zeroTime lib,
         Some ''--freshness cannot be used together with --from or --to'')"
  by (simp add: determineTimeWindow_def)

lemma determineTimeWindow_half:
  "freshness cmd = '''' \<Longrightarrow> (fromFlag cmd = '''') \<noteq> (toFlag cmd = '''') \<Longrightarrow>
     determineTimeWindow lib now cmd =
       Returns (zeroTime lib, zeroTime lib,
         Some ''either specify both --from and --to, or neither'')"
  by (auto simp: determineTimeWindow_def)

lemma determineTimeWindow_neither:
  "freshness cmd = '''' \<Longrightarrow> fromFlag cmd = '''' \<Longrightarrow> toFlag cmd = '''' \<Longrightarrow>
     determineTimeWindow lib now cmd = Returns (zeroTime lib, zeroTime lib, None)"
  by (simp add: determineTimeWindow_def)

lemma determineTimeWindow_both:
  "freshness cmd = '''' \<Longrightarrow> fromFlag cmd \<noteq> '''' \<Longrightarrow> toFlag cmd \<noteq> '''' \<Longrightarrow>
     determineTimeWindow lib now cmd =
       (case ParseRFC3339 lib (fromFlag cmd) of
          (t1, Some err) \<Rightarrow> Returns (t1, zeroTime lib, Some (''invalid --from: '' @ err))
        | (t1, None) \<Rightarrow>
            (case ParseRFC3339 lib (toFlag cmd) of
               (t2, Some err) \<Rightarrow> Returns (t1, t2, Some (''invalid --to: '' @ err))
             | (t2, None) \<Rightarrow> Returns (t1, t2, None)))"
  by (simp add: determineTimeWindow_def split: prod.splits option.splits)

lemma determineTimeWindow_freshness:
  "freshness cmd \<noteq> '''' \<Longrightarrow> fromFlag cmd = '''' \<Longrightarrow> toFlag cmd = '''' \<Longrightarrow>
     determineTimeWindow lib now cmd =
       (case parseFreshness lib (freshness cmd) of
          Panics p \<Rightarrow> Panics p
        | Returns (dur, Some err) \<Rightarrow> Returns (zeroTime lib, zeroTime lib, Some err)
        | Returns (dur, None) \<Rightarrow> Returns (Add lib now (- dur), now, None))"
  by (simp add: determineTimeWindow_def)

text \<open>
  C5 (amended). \<^verbatim>\<open>determineTimeWindow\<close> returns an error exactly in these cases:
  freshness is supplied together with from or to; from is supplied without to, or to
  without from; from and to are both supplied (without freshness) and one of them is not
  valid RFC3339; freshness is supplied alone and \<^verbatim>\<open>parseFreshness\<close> returns an error for
  it. With none of the three supplied it succeeds with the zero window; with from and to
  both valid it succeeds with the two parsed instants; with a freshness that
  \<^verbatim>\<open>parseFreshness\<close> reads as the duration \<open>dur\<close> it succeeds with the window from
  \<open>now - dur\<close> to \<open>now\<close>.
\<close>

theorem determineTimeWindow_cases:
  "((\<exists>t1 t2 msg. determineTimeWindow lib now cmd = Returns (t1, t2, Some msg)) \<longleftrightarrow>
      (freshness cmd \<noteq> '''' \<and> (fromFlag cmd \<noteq> '''' \<or> toFlag cmd \<noteq> ''''))
    \<or> (freshness cmd = '''' \<and> (fromFlag cmd = '''') \<noteq> (toFlag cmd = ''''))
    \<or> (freshness cmd = '''' \<and> fromFlag cmd \<noteq> '''' \<and> toFlag cmd \<noteq> ''''
        \<and> (snd (ParseRFC3339 lib (fromFlag cmd)) \<noteq> None
           \<or> snd (ParseRFC3339 lib (toFlag cmd)) \<noteq> None))
    \<or> (freshness cmd \<noteq> '''' \<and> fromFlag cmd = '''' \<and> toFlag cmd = ''''
        \<and> (\<exists>d msg. parseFreshness lib (freshness cmd) = Returns (d, Some msg))))
   \<and> (freshness cmd = '''' \<and> fromFlag cmd = '''' \<and> toFlag cmd = '''' \<longrightarrow>
        determineTimeWindow lib now cmd = Returns (zeroTime lib, zeroTime lib, None))
   \<and> (freshness cmd = '''' \<and> fromFlag cmd \<noteq> '''' \<and> toFlag cmd \<noteq> ''''
        \<and> snd (ParseRFC3339 lib (fromFlag cmd)) = None
        \<and> snd (ParseRFC3339 lib (toFlag cmd)) = None \<longrightarrow>
        determineTimeWindow lib now cmd =
          Returns (fst (ParseRFC3339 lib (fromFlag cmd)), fst (ParseRFC3339 lib (toFlag cmd)), None))
   \<and> (freshness cmd \<noteq> '''' \<and> fromFlag cmd = '''' \<and> toFlag cmd = ''''
        \<and> parseFreshness lib (freshness cmd) = Returns (dur, None) \<longrightarrow>
        determineTimeWindow lib now cmd = Returns (Add lib now (- dur), now, None))"
proof -
  consider (conflict) "freshness cmd \<noteq> ''''" "fromFlag cmd \<noteq> '''' \<or> toFlag cmd \<noteq> ''''"
    | (fresh) "freshness cmd \<noteq> ''''" "fromFlag cmd = ''''" "toFlag cmd = ''''"
    | (half) "freshness cmd = ''''" "(fromFlag cmd = '''') \<noteq> (toFlag cmd = '''')"
    | (neither) "freshness cmd = ''''" "fromFlag cmd = ''''" "toFlag cmd = ''''"
    | (both) "freshness cmd = ''''" "fromFlag cmd \<noteq> ''''" "toFlag cmd \<noteq> ''''"
    by blast
  then show ?thesis
  proof cases
    case conflict
    then show ?thesis using determineTimeWindow_conflict [of cmd lib now] by auto
  next
    case fresh
    then show ?thesis
      using determineTimeWindow_freshness [of cmd lib now]
      by (auto split: outcome.splits prod.splits option.splits)
  next
    case half
    then show ?thesis using determineTimeWindow_half [of cmd lib now] by auto
  next
    case neither
    then show ?thesis using determineTimeWindow_neither [of cmd lib now] by auto
  next
    case both
    then show ?thesis
      using determineTimeWindow_both [of cmd lib now]
      by (auto split: prod.splits option.splits)
  qed
qed

text \<open>
  The claim C5 as it was stated gives the conflicts of the flags and an invalid RFC3339
  value as the only errors. A freshness supplied alone, with nothing to conflict with, is
  an error too when it is not a duration.
\<close>

theorem determineTimeWindow_counterexample:
  "determineTimeWindow exampleLib jan2 \<lparr>freshness = ''xyz'', fromFlag = '''', toFlag = ''''\<rparr> =
     Returns (0, 0, Some (''invalid freshness '' @ dquote @ ''xyz'' @ dquote))"
  by (simp add: determineTimeWindow_def parseFreshness_def FindStringSubmatch_def isDigit_def
      exampleLib_def invalidFreshness_def)

theorem determineTimeWindow_cases_witness:
  "determineTimeWindow exampleLib jan2 \<lparr>freshness = '''', fromFlag = '''', toFlag = ''''\<rparr> =
     Returns (0, 0, None)
   \<and> determineTimeWindow exampleLib jan2
       \<lparr>freshness = '''', fromFlag = ''2024-01-01T00:00:00Z'', toFlag = ''2024-01-02T00:00:00Z''\<rparr> =
     Returns (jan1, jan2, None)
   \<and> determineTimeWindow exampleLib jan2 \<lparr>freshness = ''1d'', fromFlag = '''', toFlag = ''''\<rparr> =
     Returns (jan1, jan2, None)
   \<and> (\<exists>t1 t2 msg. determineTimeWindow exampleLib jan2
         \<lparr>freshness = ''1d'', fromFlag = ''2024-01-01T00:00:00Z'', toFlag = ''''\<rparr> =
         Returns (t1, t2, Some msg))
   \<and> (\<exists>t1 t2 msg. determineTimeWindow exampleLib jan2
         \<lparr>freshness = '''', fromFlag = ''2024-01-01T00:00:00Z'', toFlag = ''''\<rparr> =
         Returns (t1, t2, Some msg))
   \<and> (\<exists>t1 t2 msg. determineTimeWindow exampleLib jan2
         \<lparr>freshness = '''', fromFlag = ''2024-01-01T00:00:00Z'', toFlag = ''tomorrow''\<rparr> =
         Returns (t1, t2, Some msg))
   \<and> (\<exists>t1 t2 msg. determineTimeWindow exampleLib jan2
         \<lparr>freshness = ''xyz'', fromFlag = '''', toFlag = ''''\<rparr> =
         Returns (t1, t2, Some msg))"
proof -
  have pf: "parseFreshness exampleLib ''1d'' = Returns (24 * Hour, None)"
    by (simp add: parseFreshness_def FindStringSubmatch_def isDigit_def Atoi_def decimal_def
        digitValue_def maxInt_def minInt_def)
  have px: "\<exists>d msg. parseFreshness exampleLib ''xyz'' = Returns (d, Some msg)"
    by (simp add: parseFreshness_def FindStringSubmatch_def isDigit_def exampleLib_def)
  have ad: "Add exampleLib jan2 (- (24 * Hour)) = jan1"
    by (simp add: exampleLib_def jan2_def jan1_def Hour_def Minute_def Second_def
        Millisecond_def Microsecond_def Nanosecond_def)
  have pr: "ParseRFC3339 exampleLib ''2024-01-01T00:00:00Z'' = (jan1, None)"
    "ParseRFC3339 exampleLib ''2024-01-02T00:00:00Z'' = (jan2, None)"
    "snd (ParseRFC3339 exampleLib ''tomorrow'') \<noteq> None"
    "zeroTime exampleLib = 0"
    by (simp_all add: exampleLib_def)
  show ?thesis
    using determineTimeWindow_cases [of exampleLib jan2
        "\<lparr>freshness = '''', fromFlag = '''', toFlag = ''''\<rparr>"]
      determineTimeWindow_cases [of exampleLib jan2
        "\<lparr>freshness = '''', fromFlag = ''2024-01-01T00:00:00Z'', toFlag = ''2024-01-02T00:00:00Z''\<rparr>"]
      determineTimeWindow_cases [of exampleLib jan2
        "\<lparr>freshness = ''1d'', fromFlag = '''', toFlag = ''''\<rparr>" "24 * Hour"]
      determineTimeWindow_cases [of exampleLib jan2
        "\<lparr>freshness = ''1d'', fromFlag = ''2024-01-01T00:00:00Z'', toFlag = ''''\<rparr>"]
      determineTimeWindow_cases [of exampleLib jan2
        "\<lparr>freshness = '''', fromFlag = ''2024-01-01T00:00:00Z'', toFlag = ''''\<rparr>"]
      determineTimeWindow_cases [of exampleLib jan2
        "\<lparr>freshness = '''', fromFlag = ''2024-01-01T00:00:00Z'', toFlag = ''tomorrow''\<rparr>"]
      determineTimeWindow_cases [of exampleLib jan2
        "\<lparr>freshness = ''xyz'', fromFlag = '''', toFlag = ''''\<rparr>"]
      pf px ad pr
    by simp
qed

text \<open>
  C9 (amended). With no freshness, no from and no to, \<^verbatim>\<open>determineTimeWindow\<close> returns
  the zero window and \<^verbatim>\<open>buildFilter\<close> returns the user filter as it is: this layer adds
  no time filter. The default window is then added by the program itself, when its
  logadmin client builds the request: the filter of the request is
  \<^verbatim>\<open>defaultTimestampFilter\<close> of the user filter, that is \<^verbatim>\<open>timestamp >= "<24 hours ago>"\<close>
  for an empty user filter, and the user filter with that predicate appended for a user
  filter that does not mention \<^verbatim>\<open>timestamp\<close>.
\<close>

theorem no_window_request_filter:
  "determineTimeWindow lib now \<lparr>freshness = '''', fromFlag = '''', toFlag = ''''\<rparr> =
     Returns (zeroTime lib, zeroTime lib, None)
   \<and> (IsZero lib (zeroTime lib) \<longrightarrow>
        buildFilter lib (zeroTime lib) (zeroTime lib) userFilter = userFilter)
   \<and> (IsZero lib (zeroTime lib) \<longrightarrow>
        Filter (listLogEntriesRequest lib now' parent
                 (runOptions (buildFilter lib (zeroTime lib) (zeroTime lib) userFilter) desc)) =
          defaultTimestampFilter lib now' userFilter)
   \<and> (IsZero lib (zeroTime lib) \<and> userFilter = '''' \<longrightarrow>
        Filter (listLogEntriesRequest lib now' parent
                 (runOptions (buildFilter lib (zeroTime lib) (zeroTime lib) userFilter) desc)) =
          ''timestamp >= '' @ dquote @ FormatRFC3339 lib (UTC lib (Add lib now' (- 24 * Hour))) @ dquote)
   \<and> (IsZero lib (zeroTime lib) \<and> userFilter \<noteq> ''''
        \<and> \<not> (\<exists>pre post. ToLower lib userFilter = pre @ ''timestamp'' @ post) \<longrightarrow>
        Filter (listLogEntriesRequest lib now' parent
                 (runOptions (buildFilter lib (zeroTime lib) (zeroTime lib) userFilter) desc)) =
          userFilter @ '' AND timestamp >= '' @ dquote @
          FormatRFC3339 lib (UTC lib (Add lib now' (- 24 * Hour))) @ dquote)"
  unfolding Contains_iff [symmetric]
  by (simp add: determineTimeWindow_def buildFilter_def timeFilter_def listLogEntriesRequest_def
      Filter_runOptions defaultTimestampFilter_def dayAgo_def)

text \<open>
  The claim C9 as it was stated leaves the default window to the remote service. The
  request the program sends for an empty user filter does not carry the built (empty)
  filter: it carries the 24-hour predicate.
\<close>

theorem no_window_request_filter_counterexample:
  "buildFilter exampleLib (zeroTime exampleLib) (zeroTime exampleLib) '''' = ''''
   \<and> Filter (listLogEntriesRequest exampleLib jan2 ''projects/p''
        (runOptions (buildFilter exampleLib (zeroTime exampleLib) (zeroTime exampleLib) '''') True)) =
      ''timestamp >= '' @ dquote @ ''2024-01-01T00:00:00Z'' @ dquote"
  by (simp add: buildFilter_def timeFilter_def listLogEntriesRequest_def runOptions_def
      defaultTimestampFilter_def dayAgo_def exampleLib_def jan2_def jan1_def Hour_def Minute_def
      Second_def Millisecond_def Microsecond_def Nanosecond_def)

theorem no_window_request_filter_witness:
  "buildFilter exampleLib 0 0 ''severity=ERROR'' = ''severity=ERROR''
   \<and> Filter (listLogEntriesRequest exampleLib jan2 ''projects/p''
        (runOptions (buildFilter exampleLib 0 0 ''severity=ERROR'') True)) =
      ''severity=ERROR AND timestamp >= '' @ dquote @ ''2024-01-01T00:00:00Z'' @ dquote
   \<and> Filter (listLogEntriesRequest exampleLib jan2 ''projects/p''
        (runOptions (buildFilter exampleLib 0 0 '''') True)) =
      ''timestamp >= '' @ dquote @ ''2024-01-01T00:00:00Z'' @ dquote"
proof -
  have z: "zeroTime exampleLib = 0" "IsZero exampleLib 0"
    by (simp_all add: exampleLib_def)
  have 1: "''severity=ERROR'' \<noteq> '''' \<and> \<not> (\<exists>pre post. ToLower exampleLib ''severity=ERROR'' = pre @ ''timestamp'' @ post)"
    unfolding Contains_iff [symmetric] by (simp add: exampleLib_def asciiLower_def)
  have 3: "FormatRFC3339 exampleLib (UTC exampleLib (Add exampleLib jan2 (- 24 * Hour))) = ''2024-01-01T00:00:00Z''"
    by (simp add: exampleLib_def jan2_def jan1_def Hour_def Minute_def Second_def
        Millisecond_def Microsecond_def Nanosecond_def)
  note user = no_window_request_filter [of exampleLib jan2 "''severity=ERROR''" jan2 "''projects/p''" True]
  note none = no_window_request_filter [of exampleLib jan2 "''''" jan2 "''projects/p''" True]
  have a: "buildFilter exampleLib 0 0 ''severity=ERROR'' = ''severity=ERROR''"
    "buildFilter exampleLib 0 0 '''' = ''''"
    using user none z by simp_all
  have zz: "IsZero exampleLib (zeroTime exampleLib)" using z by simp
  have b: "Filter (listLogEntriesRequest exampleLib jan2 ''projects/p''
             (runOptions (buildFilter exampleLib (zeroTime exampleLib) (zeroTime exampleLib)
                ''severity=ERROR'') True)) =
           ''severity=ERROR'' @ '' AND timestamp >= '' @ dquote @
           FormatRFC3339 exampleLib (UTC exampleLib (Add exampleLib jan2 (- 24 * Hour))) @ dquote"
    using user zz 1 by blast
  have c: "Filter (listLogEntriesRequest exampleLib jan2 ''projects/p''
             (runOptions (buildFilter exampleLib (zeroTime exampleLib) (zeroTime exampleLib)
                '''') True)) =
           ''timestamp >= '' @ dquote @
           FormatRFC3339 exampleLib (UTC exampleLib (Add exampleLib jan2 (- 24 * Hour))) @ dquote"
    using none zz by blast
  show ?thesis
    using a(1) b [unfolded z(1) 3] c [unfolded z(1) 3] by simp
qed

section \<open>Properties of the fetch loop\<close>

lemma requests_append: "requests (xs @ ys) = requests xs @ requests ys"
  by (induction xs rule: requests.induct) simp_all

lemma stdout_append: "stdout (xs @ ys) = stdout xs @ stdout ys"
  by (induction xs rule: stdout.induct) simp_all

lemma requests_processEntries: "requests (processEntries e es) = []"
  by (induction es) (simp_all split: sum.splits)

lemma isExceeded_text: "isExceeded (Log l) \<Longrightarrow> take 19 (text_of l) = ''Rate limit exceeded''"
  by (cases l) simp_all


lemma nextPage_stop:
  assumes "backend e (fetches st) (pagerToken st) = Failure err"
    and "IsCanceled err \<or> Error err = ''no more items in iterator''"
  shows "nextPage e st =
           Return None (st\<lparr>fetches := Suc (fetches st),
                            trace := trace st @ [NextPage (pagerToken st)]\<rparr>)"
  using assms by (auto simp: nextPage_def emit_def)


lemma handleRateLimitError_other:
  assumes "\<forall>a. asAPIError err = Some a \<longrightarrow> Reason a \<noteq> ''RATE_LIMIT_EXCEEDED''"
  shows "handleRateLimitError err limited = (False, [])"
  using assms by (auto simp: handleRateLimitError_def split: option.splits)


lemma nextPage_fatal:
  assumes "backend e (fetches st) (pagerToken st) = Failure err"
    and "\<not> IsCanceled err" and "Error err \<noteq> ''no more items in iterator''"
    and "\<forall>a. asAPIError err = Some a \<longrightarrow> Reason a \<noteq> ''RATE_LIMIT_EXCEEDED''"
  shows "nextPage e st =
           Return (Some (if FromError err = Some Unauthenticated then unauthenticated else err))
             (st\<lparr>rateLimited := False, fetches := Suc (fetches st),
                 trace := trace st @ [NextPage (pagerToken st)]\<rparr>)"
  using assms
  by (simp add: nextPage_def emit_def handleRateLimitError_other [OF assms(4)])

lemma nextPage_page:
  assumes "backend e (fetches st) (pagerToken st) = Page es nt"
  shows "nextPage e st =
           (if nt = ''''
            then Return None
                   \<lparr>rateLimited = False, currentToken = currentToken st,
                    pagerToken = pagerToken st, fetches = Suc (fetches st),
                    trace = trace st @ NextPage (pagerToken st) #
                            (if rateLimited st then [Log RateLimitExpired] else []) @
                            processEntries e es\<rparr>
            else Continue
                   \<lparr>rateLimited = False, currentToken = nt,
                    pagerToken = nt, fetches = Suc (fetches st),
                    trace = trace st @ NextPage (pagerToken st) #
                            (if rateLimited st then [Log RateLimitExpired] else []) @
                            processEntries e es\<rparr>)"
  using assms by (simp add: nextPage_def emit_def)

lemma fetchPages_exhaust:
  assumes "\<forall>i. fetches st \<le> i \<and> i < N \<longrightarrow> (\<exists>es. backend e i (toks i) = Page es (toks (Suc i)))"
    and "\<forall>i. 0 < i \<and> i < N \<longrightarrow> toks i \<noteq> ''''" and "toks N = ''''"
    and "pagerToken st = toks (fetches st)"
    and "fetches st < N" and "N - fetches st \<le> fuel"
  shows "\<exists>st'. fetchPages fuel e st = Some (None, st') \<and> fetches st' = N
           \<and> length (requests (trace st')) = length (requests (trace st)) + (N - fetches st)"
  using assms
proof (induction fuel arbitrary: st)
  case 0
  then show ?case by simp
next
  case (Suc fuel)
  obtain es where page: "backend e (fetches st) (pagerToken st) = Page es (toks (Suc (fetches st)))"
    using Suc.prems(1,4,5) by auto
  show ?case
  proof (cases "Suc (fetches st) = N")
    case True
    then have "toks (Suc (fetches st)) = ''''" using Suc.prems(3) by simp
    then show ?thesis
      using nextPage_page [OF page] True
      by (simp add: requests_append requests_processEntries)
  next
    case False
    then have lt: "Suc (fetches st) < N" using Suc.prems(5) by simp
    then have ne: "toks (Suc (fetches st)) \<noteq> ''''" using Suc.prems(2) by simp
    define st' where "st' =
       \<lparr>rateLimited = False, currentToken = toks (Suc (fetches st)),
        pagerToken = toks (Suc (fetches st)), fetches = Suc (fetches st),
        trace = trace st @ NextPage (pagerToken st) #
                (if rateLimited st then [Log RateLimitExpired] else []) @ processEntries e es\<rparr>"
    have step: "nextPage e st = Continue st'"
      using nextPage_page [OF page] ne by (simp add: st'_def)
    have "\<exists>st''. fetchPages fuel e st' = Some (None, st'') \<and> fetches st'' = N
           \<and> length (requests (trace st'')) = length (requests (trace st')) + (N - fetches st')"
    proof (rule Suc.IH)
      show "\<forall>i. fetches st' \<le> i \<and> i < N \<longrightarrow> (\<exists>es. backend e i (toks i) = Page es (toks (Suc i)))"
        using Suc.prems(1) by (simp add: st'_def)
      show "\<forall>i. 0 < i \<and> i < N \<longrightarrow> toks i \<noteq> ''''" by (rule Suc.prems(2))
      show "toks N = ''''" by (rule Suc.prems(3))
      show "pagerToken st' = toks (fetches st')" by (simp add: st'_def)
      show "fetches st' < N" using lt by (simp add: st'_def)
      show "N - fetches st' \<le> fuel" using Suc.prems(6) by (simp add: st'_def)
    qed
    then obtain st'' where res: "fetchPages fuel e st' = Some (None, st'')" "fetches st'' = N"
      "length (requests (trace st'')) = length (requests (trace st')) + (N - fetches st')"
      by blast
    have "length (requests (trace st')) = Suc (length (requests (trace st)))"
      by (simp add: st'_def requests_append requests_processEntries)
    moreover have "N - fetches st' = N - Suc (fetches st)" by (simp add: st'_def)
    ultimately have "length (requests (trace st'')) = length (requests (trace st)) + (N - fetches st)"
      using res(3) lt by simp
    then show ?thesis using step res by simp
  qed
qed

text \<open>
  C2. A backend that answers \<open>N\<close> successive page fetches with a page, the last of them
  with the empty token (the fetch \<open>i\<close> is made at the token \<open>toks i\<close>, which the fetch
  before it returned, and only the \<open>N\<close>-th token is empty): with fuel for \<open>N\<close> fetches or
  more the loop returns nil after exactly \<open>N\<close> page fetches. And in any state of the loop,
  a page fetch that fails with a cancellation or with the message
  \<^verbatim>\<open>no more items in iterator\<close> makes the loop return nil at once: the failed fetch is
  the last effect of the run.
\<close>

theorem fetch_loop_termination:
  "(0 < N \<and> N \<le> fuel \<and> toks 0 = '''' \<and> toks N = '''' \<and> (\<forall>i. 0 < i \<and> i < N \<longrightarrow> toks i \<noteq> '''')
     \<and> (\<forall>i<N. \<exists>es. backend e i (toks i) = Page es (toks (Suc i)))
    \<longrightarrow> (\<exists>st. fetchAndProcessLogs fuel e = Some (None, st) \<and> fetches st = N
              \<and> length (requests (trace st)) = N))
   \<and> (backend e (fetches st) (pagerToken st) = Failure err
       \<and> (IsCanceled err \<or> Error err = ''no more items in iterator'')
    \<longrightarrow> fetchPages (Suc fuel) e st =
          Some (None, st\<lparr>fetches := Suc (fetches st),
                          trace := trace st @ [NextPage (pagerToken st)]\<rparr>))"
proof (intro conjI impI)
  assume a: "0 < N \<and> N \<le> fuel \<and> toks 0 = '''' \<and> toks N = ''''
     \<and> (\<forall>i. 0 < i \<and> i < N \<longrightarrow> toks i \<noteq> '''')
     \<and> (\<forall>i<N. \<exists>es. backend e i (toks i) = Page es (toks (Suc i)))"
  let ?s = "openCursor e initial"
  have s: "fetches ?s = 0" "pagerToken ?s = ''''" "requests (trace ?s) = []"
    by (simp_all add: openCursor_def initial_def emit_def)
  have "\<exists>st'. fetchPages fuel e ?s = Some (None, st') \<and> fetches st' = N
           \<and> length (requests (trace st')) = length (requests (trace ?s)) + (N - fetches ?s)"
    by (rule fetchPages_exhaust [where toks = toks]) (use a s in auto)
  then show "\<exists>st. fetchAndProcessLogs fuel e = Some (None, st) \<and> fetches st = N
              \<and> length (requests (trace st)) = N"
    using s by (simp add: fetchAndProcessLogs_def)
next
  assume "backend e (fetches st) (pagerToken st) = Failure err
       \<and> (IsCanceled err \<or> Error err = ''no more items in iterator'')"
  then show "fetchPages (Suc fuel) e st =
          Some (None, st\<lparr>fetches := Suc (fetches st),
                          trace := trace st @ [NextPage (pagerToken st)]\<rparr>)"
    using nextPage_stop [of e st err] by simp
qed

theorem fetch_loop_termination_witness:
  "(\<exists>st. fetchAndProcessLogs 3 exampleEnv = Some (None, st) \<and> fetches st = 3
       \<and> length (requests (trace st)) = 3)
   \<and> fetchPages (Suc 0) (exampleEnv\<lparr>backend := (\<lambda>n tok. Failure canceledError)\<rparr>) initial =
       Some (None, initial\<lparr>fetches := Suc 0, trace := [NextPage '''']\<rparr>)"
proof -
  have pages: "\<forall>i<3. \<exists>es. backend exampleEnv i (exampleTokens i) = Page es (exampleTokens (Suc i))"
    by (simp add: exampleEnv_def resultSet_def examplePages_def exampleTokens_def)
  have toks: "exampleTokens 0 = ''''" "exampleTokens 3 = ''''"
    "\<forall>i. 0 < i \<and> i < 3 \<longrightarrow> exampleTokens i \<noteq> ''''"
    by (simp_all add: exampleTokens_def)
  let ?e = "exampleEnv\<lparr>backend := (\<lambda>n tok. Failure canceledError)\<rparr>"
  have stop: "backend ?e (fetches initial) (pagerToken initial) = Failure canceledError
      \<and> (IsCanceled canceledError \<or> Error canceledError = ''no more items in iterator'')"
    by (simp add: canceledError_def)
  have i: "fetches initial = 0" "pagerToken initial = ''''" "trace initial = []"
    by (simp_all add: initial_def)
  show ?thesis
    using fetch_loop_termination [where N = 3 and fuel = 3 and toks = exampleTokens
          and e = exampleEnv]
      fetch_loop_termination [where fuel = 0 and e = ?e and st = initial and err = canceledError]
      pages toks stop i
    by simp
qed

lemma processEntries_append:
  "processEntries e (xs @ ys) = processEntries e xs @ processEntries e ys"
  by (induction xs) (simp_all split: sum.splits)

lemma processEntries_ok:
  "\<forall>x \<in> set xs. \<exists>j. Marshal e x = Inr j \<Longrightarrow>
     processEntries e xs = map (\<lambda>x. Println (projr (Marshal e x))) xs"
  by (induction xs) auto

lemma stdout_Println: "stdout (map (\<lambda>x. Println (f x)) xs) = map f xs"
  by (induction xs) simp_all

text \<open>
  C6. A page of \<open>N\<close> entries of which one, \<open>bad\<close>, fails to marshal while the others
  marshal: the entries before it are printed, the failure is logged with the
  \<^verbatim>\<open>InsertId\<close> of \<open>bad\<close>, the entries after it are printed, which makes \<open>N - 1\<close> lines on
  the standard output; and the pass through the loop ends as it does for any page,
  returning nil on the empty token and going on to the next page otherwise.
\<close>

theorem marshal_failure_skipped:
  assumes "backend e (fetches st) (pagerToken st) = Page (before @ bad # after) nt"
    and "Marshal e bad = Inl err"
    and "\<forall>x \<in> set (before @ after). \<exists>j. Marshal e x = Inr j"
  shows "processEntries e (before @ bad # after) =
           map (\<lambda>x. Println (projr (Marshal e x))) before @
           Log (ErrorMarshaling (InsertId bad) err) #
           map (\<lambda>x. Println (projr (Marshal e x))) after
         \<and> length (stdout (processEntries e (before @ bad # after))) =
             length (before @ bad # after) - 1
         \<and> (\<exists>st'. nextPage e st = (if nt = '''' then Return None st' else Continue st')
               \<and> trace st' = trace st @ NextPage (pagerToken st) #
                   (if rateLimited st then [Log RateLimitExpired] else []) @
                   processEntries e (before @ bad # after))"
proof -
  have b: "processEntries e before = map (\<lambda>x. Println (projr (Marshal e x))) before"
    using assms(3) by (intro processEntries_ok) auto
  have a: "processEntries e after = map (\<lambda>x. Println (projr (Marshal e x))) after"
    using assms(3) by (intro processEntries_ok) auto
  have p: "processEntries e (before @ bad # after) =
           map (\<lambda>x. Println (projr (Marshal e x))) before @
           Log (ErrorMarshaling (InsertId bad) err) #
           map (\<lambda>x. Println (projr (Marshal e x))) after"
    using assms(2) a b by (simp add: processEntries_append)
  have n: "length (stdout (processEntries e (before @ bad # after))) =
             length (before @ bad # after) - 1"
    unfolding p by (simp add: stdout_append stdout_Println)
  have s: "\<exists>st'. nextPage e st = (if nt = '''' then Return None st' else Continue st')
               \<and> trace st' = trace st @ NextPage (pagerToken st) #
                   (if rateLimited st then [Log RateLimitExpired] else []) @
                   processEntries e (before @ bad # after)"
    using nextPage_page [OF assms(1)] by (cases "nt = ''''") simp_all
  show ?thesis using p n s by blast
qed

theorem marshal_failure_skipped_witness:
  "processEntries exampleEnv [entry ''a'', entry ''b'', entry ''c''] =
     [Println ''{insertId: a}'',
      Log (ErrorMarshaling ''b'' ''proto: field contains invalid UTF-8''),
      Println ''{insertId: c}'']
   \<and> length (stdout (processEntries exampleEnv [entry ''a'', entry ''b'', entry ''c''])) = 2
   \<and> (\<exists>st'. nextPage exampleEnv (openCursor exampleEnv initial) = Continue st'
         \<and> trace st' = trace (openCursor exampleEnv initial) @ NextPage '''' #
             processEntries exampleEnv [entry ''a'', entry ''b'', entry ''c''])"
proof -
  let ?st = "openCursor exampleEnv initial"
  have s: "fetches ?st = 0" "pagerToken ?st = ''''" "\<not> rateLimited ?st"
    by (simp_all add: openCursor_def initial_def emit_def)
  have page: "backend exampleEnv (fetches ?st) (pagerToken ?st) =
                Page ([entry ''a''] @ entry ''b'' # [entry ''c'']) ''t1''"
    unfolding s by (simp add: exampleEnv_def resultSet_def examplePages_def)
  have bad: "Marshal exampleEnv (entry ''b'') = Inl ''proto: field contains invalid UTF-8''"
    by (simp add: exampleEnv_def exampleMarshal_def entry_def)
  have good: "\<forall>x \<in> set ([entry ''a''] @ [entry ''c'']). \<exists>j. Marshal exampleEnv x = Inr j"
    by (simp add: exampleEnv_def exampleMarshal_def entry_def)
  have js: "projr (Marshal exampleEnv (entry ''a'')) = ''{insertId: a}''"
    "projr (Marshal exampleEnv (entry ''c'')) = ''{insertId: c}''"
    "InsertId (entry ''b'') = ''b''"
    by (simp_all add: exampleEnv_def exampleMarshal_def entry_def)
  show ?thesis
    using marshal_failure_skipped [OF page bad good] s js
    by (auto simp del: processEntries.simps)
qed

text \<open>
  C8. A page fetch that fails with an error of status \<^verbatim>\<open>Unauthenticated\<close> that is not a
  cancellation, does not have the message \<^verbatim>\<open>no more items in iterator\<close> and is not a
  rate-limit error makes the loop return at once, with no further page fetch, and the
  error it returns is not the error of the backend but the instruction to authenticate
  again.
\<close>

theorem unauthenticated_stops:
  assumes "backend e (fetches st) (pagerToken st) = Failure err"
    and "FromError err = Some Unauthenticated"
    and "\<not> IsCanceled err" and "Error err \<noteq> ''no more items in iterator''"
    and "\<forall>a. asAPIError err = Some a \<longrightarrow> Reason a \<noteq> ''RATE_LIMIT_EXCEEDED''"
  shows "fetchPages (Suc fuel) e st =
           Some (Some unauthenticated,
                 st\<lparr>rateLimited := False, fetches := Suc (fetches st),
                    trace := trace st @ [NextPage (pagerToken st)]\<rparr>)
         \<and> Error unauthenticated =
             ''unauthenticated, please run `gcloud auth application-default login` and try again''"
  using nextPage_fatal [OF assms(1,3,4,5)] assms(2)
  by (simp add: unauthenticated_def errors_New_def)

theorem unauthenticated_stops_witness:
  "fetchPages (Suc 0) (exampleEnv\<lparr>backend := (\<lambda>n tok. Failure unauthenticatedError)\<rparr>) initial =
     Some (Some unauthenticated, initial\<lparr>fetches := Suc 0, trace := [NextPage '''']\<rparr>)"
proof -
  let ?e = "exampleEnv\<lparr>backend := (\<lambda>n tok. Failure unauthenticatedError)\<rparr>"
  have 1: "backend ?e (fetches initial) (pagerToken initial) = Failure unauthenticatedError"
    by simp
  have 2: "FromError unauthenticatedError = Some Unauthenticated"
    "\<not> IsCanceled unauthenticatedError"
    "Error unauthenticatedError \<noteq> ''no more items in iterator''"
    "\<forall>a. asAPIError unauthenticatedError = Some a \<longrightarrow> Reason a \<noteq> ''RATE_LIMIT_EXCEEDED''"
    by (auto simp: unauthenticatedError_def Unauthenticated_def)
  have i: "fetches initial = 0" "pagerToken initial = ''''" "trace initial = []"
    "initial\<lparr>rateLimited := False\<rparr> = initial"
    by (simp_all add: initial_def)
  show ?thesis
    using unauthenticated_stops [OF 1 2, of 0] i by simp
qed















end
